theory Spec2Isabelle
  imports Complex_Main
begin

section \<open>Numbers and vectors\<close>

text \<open>
  The simulator computes with JavaScript numbers. They are modelled as real numbers:
  every finite double is a real, and the arithmetic is taken without rounding. The
  values NaN and Infinity have no counterpart. The theorems below are structural (which
  branch runs, which object is moved, which expression is returned) or are evaluated at
  inputs where each intermediate value is far from any overflow; what depends on the
  rounding or the overflow of doubles is outside this model and is not stated here.

  A \<open>THREE.Vector3\<close> is a record of its three coordinates. The methods of the library
  that the physics code calls are written as functions that return the new vector:
  \<open>add\<close>, \<open>sub\<close>, \<open>subVectors\<close>, \<open>multiplyScalar\<close>, \<open>divideScalar\<close> (multiplication by
  the reciprocal), \<open>dot\<close>, \<open>lengthSq\<close>, \<open>length\<close> and \<open>normalize\<close> (division by
  \<open>length() || 1\<close>, so the zero vector stays the zero vector).
\<close>

record vec3 =
  x :: real
  y :: real
  z :: real

definition Vector3 :: "real \<Rightarrow> real \<Rightarrow> real \<Rightarrow> vec3" where
  "Vector3 a b c = \<lparr>x = a, y = b, z = c\<rparr>"

definition add_vec :: "vec3 \<Rightarrow> vec3 \<Rightarrow> vec3" where
  "add_vec u v = Vector3 (x u + x v) (y u + y v) (z u + z v)"

definition sub_vec :: "vec3 \<Rightarrow> vec3 \<Rightarrow> vec3" where
  "sub_vec u v = Vector3 (x u - x v) (y u - y v) (z u - z v)"

definition subVectors :: "vec3 \<Rightarrow> vec3 \<Rightarrow> vec3" where
  "subVectors a b = Vector3 (x a - x b) (y a - y b) (z a - z b)"

definition multiplyScalar :: "vec3 \<Rightarrow> real \<Rightarrow> vec3" where
  "multiplyScalar v s = Vector3 (x v * s) (y v * s) (z v * s)"

definition divideScalar :: "vec3 \<Rightarrow> real \<Rightarrow> vec3" where
  "divideScalar v s = multiplyScalar v (1 / s)"

definition dot :: "vec3 \<Rightarrow> vec3 \<Rightarrow> real" where
  "dot u v = x u * x v + y u * y v + z u * z v"

definition lengthSq :: "vec3 \<Rightarrow> real" where
  "lengthSq v = x v * x v + y v * y v + z v * z v"

definition length_vec :: "vec3 \<Rightarrow> real" where
  "length_vec v = sqrt (x v * x v + y v * y v + z v * z v)"

definition normalize_vec :: "vec3 \<Rightarrow> vec3" where
  "normalize_vec v = divideScalar v (if length_vec v = 0 then 1 else length_vec v)"

subsection \<open>Utils\<close>

definition distance :: "vec3 \<Rightarrow> vec3 \<Rightarrow> real" where
  "distance v1 v2 = sqrt ((x v2 - x v1)\<^sup>2 + (y v2 - y v1)\<^sup>2 + (z v2 - z v1)\<^sup>2)"

definition clamp :: "real \<Rightarrow> real \<Rightarrow> real \<Rightarrow> real" where
  "clamp val lo hi = min (max val lo) hi"

section \<open>Magnets\<close>

text \<open>
  A magnet as the physics engine reads it: its type string, position and strength
  (the fields \<open>type\<close> and \<open>position\<close> of the class are \<open>mtype\<close> and \<open>mposition\<close>
  here; \<open>position\<close> names the field of the particle). The type is the string the
  caller passes, as in the source, where \<open>'bar'\<close>, \<open>'ring'\<close> and \<open>'horseshoe'\<close>
  are the known ones. The constructor merges the caller's options over the defaults, so
  an option that is not given is \<open>None\<close> here and falls back to the default
  (strength 1.0). The mesh, colours, size and drag state only feed the renderer and are
  left out.

  A constructor returns \<open>error + object\<close>, with \<open>Inl\<close> for a failure. Neither
  constructor of the source has a \<open>throw\<close>, so neither model has an \<open>Inl\<close> branch.
\<close>

record magnet =
  mtype :: string
  mposition :: vec3
  strength :: real

record magnet_options =
  opt_strength :: "real option"

datatype error = InvalidParameter string

definition Magnet_new :: "vec3 \<Rightarrow> string \<Rightarrow> magnet_options \<Rightarrow> error + magnet" where
  "Magnet_new pos ty options =
     Inr \<lparr>mtype = ty, mposition = pos,
          strength = (case opt_strength options of None \<Rightarrow> 1.0 | Some s \<Rightarrow> s)\<rparr>"

definition setStrength :: "magnet \<Rightarrow> real \<Rightarrow> magnet" where
  "setStrength m s = m\<lparr>strength := clamp s 0.1 2.0\<rparr>"

section \<open>Physics\<close>

definition GRAVITY :: real where "GRAVITY = - 9.81"
definition DAMPING :: real where "DAMPING = 0.98"
definition AIR_RESISTANCE :: real where "AIR_RESISTANCE = 0.99"
definition MAGNETIC_FORCE_SCALE :: real where "MAGNETIC_FORCE_SCALE = 50"
definition MIN_FORCE :: real where "MIN_FORCE = 0.001"
definition MAX_FORCE :: real where "MAX_FORCE = 10"
definition maxVelocity :: real where "maxVelocity = 20"
definition restitution :: real where "restitution = 0.3"

definition calculateBarMagnetField :: "vec3 \<Rightarrow> vec3 \<Rightarrow> real" where
  "calculateBarMagnetField magnetPos particlePos =
     (let magnetDirection = Vector3 0 1 0;
          toParticle = normalize_vec (subVectors particlePos magnetPos);
          dotProduct = dot toParticle magnetDirection
      in \<bar>cos (dotProduct * pi)\<bar> + 0.3)"

definition calculateRingMagnetField :: "vec3 \<Rightarrow> vec3 \<Rightarrow> real" where
  "calculateRingMagnetField magnetPos particlePos =
     (let magnetAxis = Vector3 0 1 0;
          toParticle = subVectors particlePos magnetPos;
          axisDistance = \<bar>dot toParticle magnetAxis\<bar>;
          radialDistance = sqrt (lengthSq toParticle - axisDistance * axisDistance);
          ringEffect = exp (- ((radialDistance - 1)\<^sup>2) * 2)
      in ringEffect + 0.2)"

definition calculateMagneticForce :: "vec3 \<Rightarrow> vec3 \<Rightarrow> real \<Rightarrow> string \<Rightarrow> vec3" where
  "calculateMagneticForce sourcePos targetPos magnetStrength magnetType =
     (let d = distance sourcePos targetPos in
      if d < 0.1 then Vector3 0 0 0
      else
        let forceMagnitude = (magnetStrength * MAGNETIC_FORCE_SCALE) / d\<^sup>2;
            forceMagnitude =
              (if magnetType = ''bar''
               then forceMagnitude * calculateBarMagnetField sourcePos targetPos
               else if magnetType = ''ring''
               then forceMagnitude * calculateRingMagnetField sourcePos targetPos
               else forceMagnitude);
            direction = normalize_vec (subVectors sourcePos targetPos);
            forceMagnitude = clamp forceMagnitude MIN_FORCE MAX_FORCE
        in multiplyScalar direction forceMagnitude)"

definition calculateGravity :: "real \<Rightarrow> vec3" where
  "calculateGravity m = Vector3 0 (GRAVITY * m) 0"

definition calculateAirResistance :: "vec3 \<Rightarrow> vec3" where
  "calculateAirResistance v = multiplyScalar v (- AIR_RESISTANCE * length_vec v)"

section \<open>Particles\<close>

text \<open>
  An iron particle with the fields the simulation reads and writes. \<open>maxAge\<close> is
  \<open>Infinity\<close> in the constructor: \<open>None\<close> stands for it, \<open>Some a\<close> for a finite
  maximum age. The mesh and the material options only feed the renderer.
\<close>

record particle_options =
  opt_radius :: "real option"
  opt_mass :: "real option"

record particle =
  position :: vec3
  velocity :: vec3
  acceleration :: vec3
  mass :: real
  radius :: real
  age :: real
  maxAge :: "real option"
  isDead :: bool
  isAttractedToMagnet :: bool
  currentMagnet :: "magnet option"
  stuckToGround :: bool

definition IronParticle_new :: "vec3 \<Rightarrow> particle_options \<Rightarrow> error + particle" where
  "IronParticle_new pos options =
     Inr \<lparr>position = pos, velocity = Vector3 0 0 0, acceleration = Vector3 0 0 0,
          mass = (case opt_mass options of None \<Rightarrow> 0.1 | Some m \<Rightarrow> m),
          radius = (case opt_radius options of None \<Rightarrow> 0.02 | Some r \<Rightarrow> r),
          age = 0, maxAge = None, isDead = False,
          isAttractedToMagnet = False, currentMagnet = None, stuckToGround = False\<rparr>"

subsection \<open>Ground collision and integration (Physics)\<close>

definition handleGroundCollision :: "particle \<Rightarrow> particle" where
  "handleGroundCollision p =
     (let groundLevel = 0 in
      if y (position p) \<le> groundLevel then
        let p = p\<lparr>position := (position p)\<lparr>y := groundLevel\<rparr>\<rparr>;
            p = (if y (velocity p) < 0
                 then p\<lparr>velocity := (velocity p)\<lparr>y := - y (velocity p) * restitution\<rparr>\<rparr>
                 else p)
        in p\<lparr>velocity := (velocity p)\<lparr>x := x (velocity p) * 0.8, z := z (velocity p) * 0.8\<rparr>\<rparr>
      else p)"

definition updateParticle :: "particle \<Rightarrow> magnet list \<Rightarrow> real \<Rightarrow> particle" where
  "updateParticle p magnets deltaTime =
     (let totalForce = Vector3 0 0 0;
          gravity = calculateGravity (mass p);
          totalForce = add_vec totalForce gravity;
          totalForce =
            foldl (\<lambda>total m. add_vec total
                     (calculateMagneticForce (mposition m) (position p) (strength m) (mtype m)))
              totalForce magnets;
          airResistance = calculateAirResistance (velocity p);
          totalForce = add_vec totalForce airResistance;
          accel = divideScalar totalForce (mass p);
          v = add_vec (velocity p) (multiplyScalar accel deltaTime);
          v = (if length_vec v > maxVelocity
               then multiplyScalar (normalize_vec v) maxVelocity else v);
          displacement = multiplyScalar v deltaTime;
          p = p\<lparr>velocity := v, position := add_vec (position p) displacement\<rparr>;
          p = handleGroundCollision p
      in p\<lparr>velocity := multiplyScalar (velocity p) DAMPING\<rparr>)"

subsection \<open>Pairwise collision (Physics)\<close>

definition handleParticleCollision :: "particle \<Rightarrow> particle \<Rightarrow> particle \<times> particle" where
  "handleParticleCollision particle1 particle2 =
     (let d = distance (position particle1) (position particle2);
          minDistance = radius particle1 + radius particle2 in
      if d < minDistance \<and> d > 0 then
        let collisionDirection =
              normalize_vec (subVectors (position particle2) (position particle1));
            overlap = minDistance - d;
            separation = multiplyScalar collisionDirection (overlap * 0.5);
            particle1 = particle1\<lparr>position := sub_vec (position particle1) separation\<rparr>;
            particle2 = particle2\<lparr>position := add_vec (position particle2) separation\<rparr>;
            relativeVelocity = subVectors (velocity particle1) (velocity particle2);
            velocityAlongNormal = dot relativeVelocity collisionDirection
        in if velocityAlongNormal > 0 then (particle1, particle2)
           else
             let impulse = 2 * velocityAlongNormal / (mass particle1 + mass particle2)
             in (particle1\<lparr>velocity := sub_vec (velocity particle1)
                    (multiplyScalar collisionDirection (impulse * mass particle2))\<rparr>,
                 particle2\<lparr>velocity := add_vec (velocity particle2)
                    (multiplyScalar collisionDirection (impulse * mass particle1))\<rparr>)
      else (particle1, particle2))"

subsection \<open>The particle's own update\<close>

definition kill :: "particle \<Rightarrow> particle" where
  "kill p = p\<lparr>isDead := True\<rparr>"

definition isOutOfBounds :: "particle \<Rightarrow> real \<Rightarrow> bool" where
  "isOutOfBounds p boundary \<longleftrightarrow>
     \<bar>x (position p)\<bar> > boundary \<or> \<bar>z (position p)\<bar> > boundary \<or>
     y (position p) < - 5 \<or> y (position p) > boundary"

text \<open>
  The scan for the closest magnet starts from distance \<open>Infinity\<close> (\<open>None\<close> here) and
  keeps the first magnet at the least distance.
\<close>

definition closest_magnet :: "particle \<Rightarrow> magnet list \<Rightarrow> magnet option \<times> real option" where
  "closest_magnet p ms =
     foldl (\<lambda>(closestMagnet, closestDistance) m.
              let d = distance (position p) (mposition m) in
              if (case closestDistance of None \<Rightarrow> True | Some c \<Rightarrow> d < c)
              then (Some m, Some d) else (closestMagnet, closestDistance))
       (None, None) ms"

definition checkMagnetInteraction :: "particle \<Rightarrow> magnet list \<Rightarrow> particle" where
  "checkMagnetInteraction p ms =
     (case closest_magnet p ms of
        (closestMagnet, Some c) \<Rightarrow>
          if c < 0.5 then
            let p = p\<lparr>isAttractedToMagnet := True, currentMagnet := closestMagnet\<rparr>
            in if c < 0.1 then p\<lparr>velocity := multiplyScalar (velocity p) 0.1\<rparr> else p
          else p\<lparr>isAttractedToMagnet := False, currentMagnet := None\<rparr>
      | (closestMagnet, None) \<Rightarrow> p\<lparr>isAttractedToMagnet := False, currentMagnet := None\<rparr>)"

definition checkGroundStick :: "particle \<Rightarrow> particle" where
  "checkGroundStick p =
     (if y (position p) \<le> 0.01 \<and> length_vec (velocity p) < 0.1
      then p\<lparr>stuckToGround := True, velocity := multiplyScalar (velocity p) 0.5\<rparr>
      else p\<lparr>stuckToGround := False\<rparr>)"

definition IronParticle_update :: "particle \<Rightarrow> real \<Rightarrow> magnet list \<Rightarrow> particle" where
  "IronParticle_update p deltaTime ms =
     (if isDead p then p
      else
        let p = p\<lparr>age := age p + deltaTime\<rparr> in
        if (case maxAge p of None \<Rightarrow> False | Some a \<Rightarrow> age p > a) then kill p
        else
          let p = updateParticle p ms deltaTime;
              p = checkMagnetInteraction p ms
          in checkGroundStick p)"

section \<open>The application: live particles, pool and the frame step\<close>

text \<open>
  The state of \<open>MagneticSimulationApp\<close> that the step touches: the live particles, the
  magnets and the reuse pool. Arrays are lists; \<open>push\<close> appends at the end, \<open>pop\<close>
  takes the last element, \<open>splice(index, 1)\<close> drops one element. Loop indices are
  natural numbers, so the \<open>index < 0\<close> half of the range test in \<open>removeParticle\<close>
  never fires.
\<close>

record app =
  particles :: "particle list"
  magnets :: "magnet list"
  particlePool :: "particle list"

definition maxParticles :: nat where "maxParticles = 1000"

definition removeParticle :: "nat \<Rightarrow> app \<Rightarrow> app" where
  "removeParticle index s =
     (if index \<ge> length (particles s) then s
      else
        let particle = particles s ! index;
            s = s\<lparr>particles := take index (particles s) @ drop (Suc index) (particles s)\<rparr>
        in if length (particlePool s) < 50
           then s\<lparr>particlePool := particlePool s @ [particle]\<rparr> else s)"

text \<open>
  The linear scan of \<open>removeOldestParticle\<close>: the pair is (\<open>oldestIndex\<close>, \<open>maxAge\<close>),
  started at index 0 and replaced only by a strictly greater age.
\<close>

definition oldest_scan :: "particle list \<Rightarrow> nat \<Rightarrow> nat \<times> real" where
  "oldest_scan ps n =
     foldl (\<lambda>(oldestIndex, maxA) i.
              if age (ps ! i) > maxA then (i, age (ps ! i)) else (oldestIndex, maxA))
       (0, age (ps ! 0)) [1..<n]"

definition removeOldestParticle :: "app \<Rightarrow> app" where
  "removeOldestParticle s =
     (if length (particles s) = 0 then s
      else removeParticle (fst (oldest_scan (particles s) (length (particles s)))) s)"

definition addParticle :: "vec3 \<Rightarrow> particle_options \<Rightarrow> app \<Rightarrow> error + (particle \<times> app)" where
  "addParticle pos options s =
     (let s = (if length (particles s) \<ge> maxParticles then removeOldestParticle s else s) in
      if length (particlePool s) > 0 then
        let particle = (last (particlePool s))
              \<lparr>position := pos, velocity := Vector3 0 0 0, isDead := False, age := 0\<rparr>;
            s = s\<lparr>particlePool := butlast (particlePool s)\<rparr>
        in Inr (particle, s\<lparr>particles := particles s @ [particle]\<rparr>)
      else
        case IronParticle_new pos options of
          Inl e \<Rightarrow> Inl e
        | Inr particle \<Rightarrow> Inr (particle, s\<lparr>particles := particles s @ [particle]\<rparr>))"

text \<open>
  \<open>updateParticles\<close> and \<open>cleanupDeadParticles\<close> walk the array from the last index
  down to 0; the first argument counts the indices still to visit, the body works at
  index \<open>i\<close>.
\<close>

fun updateParticles_from :: "nat \<Rightarrow> real \<Rightarrow> app \<Rightarrow> app" where
  "updateParticles_from 0 deltaTime s = s"
| "updateParticles_from (Suc i) deltaTime s =
     (let particle = IronParticle_update (particles s ! i) deltaTime (magnets s);
          s = s\<lparr>particles := (particles s)[i := particle]\<rparr>;
          s = (if isOutOfBounds particle 15 then removeParticle i s else s)
      in updateParticles_from i deltaTime s)"

definition updateParticles :: "real \<Rightarrow> app \<Rightarrow> app" where
  "updateParticles deltaTime s = updateParticles_from (length (particles s)) deltaTime s"

definition collide_pair :: "nat \<Rightarrow> nat \<Rightarrow> particle list \<Rightarrow> particle list" where
  "collide_pair i j ps =
     (case handleParticleCollision (ps ! i) (ps ! j) of (a, b) \<Rightarrow> ps[i := a, j := b])"

definition handleParticleCollisions :: "app \<Rightarrow> app" where
  "handleParticleCollisions s =
     (let n = length (particles s) in
      s\<lparr>particles :=
          foldl (\<lambda>ps i. foldl (\<lambda>ps j. collide_pair i j ps) ps [Suc i..<n])
            (particles s) [0..<n - 1]\<rparr>)"

fun cleanup_from :: "nat \<Rightarrow> app \<Rightarrow> app" where
  "cleanup_from 0 s = s"
| "cleanup_from (Suc i) s =
     cleanup_from i (if isDead (particles s ! i) then removeParticle i s else s)"

definition cleanupDeadParticles :: "app \<Rightarrow> app" where
  "cleanupDeadParticles s = cleanup_from (length (particles s)) s"

definition app_update :: "real \<Rightarrow> app \<Rightarrow> app" where
  "app_update deltaTime s =
     (let s = updateParticles deltaTime s;
          s = (if length (particles s) < 100 then handleParticleCollisions s else s)
      in cleanupDeadParticles s)"

section \<open>Sample states\<close>

text \<open>
  Sample inputs: the particle that the constructor builds from the default options, and
  two application states. In \<open>stacked_app\<close> two particles are stacked on the ground,
  the upper one 0.03 above the lower, so that after one frame of gravity their spheres
  of radius 0.02 still overlap; \<open>lower_after\<close> and \<open>upper_after\<close> are these two as
  the integration phase of a frame of 1/60 s leaves them. In \<open>full_app\<close> 1000
  particles are live: all of age 0 but the ones at index 499 and at index 700, which
  both have age 5.
\<close>

definition fresh_particle :: "vec3 \<Rightarrow> particle" where
  "fresh_particle pos =
     \<lparr>position = pos, velocity = Vector3 0 0 0, acceleration = Vector3 0 0 0,
      mass = 1 / 10, radius = 1 / 50, age = 0, maxAge = None, isDead = False,
      isAttractedToMagnet = False, currentMagnet = None, stuckToGround = False\<rparr>"

definition stacked_app :: app where
  "stacked_app =
     \<lparr>particles = [fresh_particle (Vector3 0 0 0), fresh_particle (Vector3 0 (3 / 100) 0)],
      magnets = [], particlePool = []\<rparr>"

definition lower_after :: particle where
  "lower_after = (fresh_particle (Vector3 0 0 0))
     \<lparr>age := 1 / 60, velocity := Vector3 0 (48069 / 2000000) 0, stuckToGround := True\<rparr>"

definition upper_after :: particle where
  "upper_after = (fresh_particle (Vector3 0 (3 / 100) 0))
     \<lparr>age := 1 / 60, velocity := Vector3 0 (- (16023 / 100000)) 0,
      position := Vector3 0 (1091 / 40000) 0\<rparr>"

definition full_app :: app where
  "full_app =
     \<lparr>particles =
        replicate 499 (fresh_particle (Vector3 0 1 0))
        @ [(fresh_particle (Vector3 1 1 0))\<lparr>age := 5\<rparr>]
        @ replicate 200 (fresh_particle (Vector3 0 1 0))
        @ [(fresh_particle (Vector3 2 1 0))\<lparr>age := 5\<rparr>]
        @ replicate 299 (fresh_particle (Vector3 0 1 0)),
      magnets = [], particlePool = []\<rparr>"

section \<open>Facts about vectors and the sample particles\<close>

lemma Vector3_sel [simp]:
  "x (Vector3 a b c) = a" "y (Vector3 a b c) = b" "z (Vector3 a b c) = c"
  by (simp_all add: Vector3_def)

lemma add_vec_Vector3 [simp]:
  "add_vec (Vector3 a b c) (Vector3 d e f) = Vector3 (a + d) (b + e) (c + f)"
  by (simp add: add_vec_def)

lemma sub_vec_Vector3 [simp]:
  "sub_vec (Vector3 a b c) (Vector3 d e f) = Vector3 (a - d) (b - e) (c - f)"
  by (simp add: sub_vec_def)

lemma subVectors_Vector3 [simp]:
  "subVectors (Vector3 a b c) (Vector3 d e f) = Vector3 (a - d) (b - e) (c - f)"
  by (simp add: subVectors_def)

lemma multiplyScalar_Vector3 [simp]:
  "multiplyScalar (Vector3 a b c) s = Vector3 (a * s) (b * s) (c * s)"
  by (simp add: multiplyScalar_def)

lemma length_vec_vertical [simp]: "length_vec (Vector3 0 b 0) = \<bar>b\<bar>"
  by (simp add: length_vec_def)

lemma distance_vertical [simp]: "distance (Vector3 a b c) (Vector3 a e c) = \<bar>e - b\<bar>"
  by (simp add: distance_def)

lemma Vector3_eq [simp]:
  "Vector3 a b c = Vector3 d e f \<longleftrightarrow> a = d \<and> b = e \<and> c = f"
  by (simp add: Vector3_def)

lemma Vector3_update [simp]:
  "(Vector3 a b c)\<lparr>x := v\<rparr> = Vector3 v b c"
  "(Vector3 a b c)\<lparr>y := v\<rparr> = Vector3 a v c"
  "(Vector3 a b c)\<lparr>z := v\<rparr> = Vector3 a b v"
  by (simp_all add: Vector3_def)

lemma fresh_fields [simp]:
  "position (fresh_particle pos) = pos"
  "velocity (fresh_particle pos) = Vector3 0 0 0"
  "mass (fresh_particle pos) = 1 / 10"
  "radius (fresh_particle pos) = 1 / 50"
  "age (fresh_particle pos) = 0"
  "maxAge (fresh_particle pos) = None"
  "isDead (fresh_particle pos) = False"
  by (simp_all add: fresh_particle_def)

lemma after_fields [simp]:
  "position lower_after = Vector3 0 0 0"
  "position upper_after = Vector3 0 (1091 / 40000) 0"
  "velocity lower_after = Vector3 0 (48069 / 2000000) 0"
  "velocity upper_after = Vector3 0 (- (16023 / 100000)) 0"
  "radius lower_after = 1 / 50" "radius upper_after = 1 / 50"
  "mass lower_after = 1 / 10" "mass upper_after = 1 / 10"
  "isDead lower_after = False" "isDead upper_after = False"
  by (simp_all add: lower_after_def upper_after_def)

section \<open>The singularity guard\<close>

text \<open>
  Claim C4. When the magnet and the particle are closer than 0.1, the force function
  returns the zero vector, whatever the type string and the strength of the magnet.
\<close>

theorem singularity_guard:
  "distance magnetPos particlePos < 0.1 \<Longrightarrow>
     calculateMagneticForce magnetPos particlePos s ty = Vector3 0 0 0"
  by (simp add: calculateMagneticForce_def Let_def)

theorem singularity_guard_witness:
  "distance (Vector3 0 0 0) (Vector3 0 0 0) < 0.1 \<and>
   calculateMagneticForce (Vector3 0 0 0) (Vector3 0 0 0) 2 ''ring'' = Vector3 0 0 0"
proof -
  have h: "distance (Vector3 0 0 0) (Vector3 0 0 0) < 0.1"
    by (simp add: distance_def)
  show ?thesis
    using h singularity_guard [OF h, of 2 "''ring''"] by simp
qed

section \<open>The shape of the field: horseshoe against bar\<close>

text \<open>
  Claim C2 says that a horseshoe magnet exerts the force of a bar magnet at the same
  place with the same strength. The force function has a branch for \<open>'bar'\<close> and one
  for \<open>'ring'\<close> and none for \<open>'horseshoe'\<close>: a magnet at the origin with strength 0.1
  pulls a particle at (1, 0, 0) with 5 as a horseshoe and with 6.5 as a bar.
\<close>

theorem horseshoe_differs_from_bar:
  "calculateMagneticForce (Vector3 0 0 0) (Vector3 1 0 0) (1 / 10) ''horseshoe''
     = Vector3 (- 5) 0 0 \<and>
   calculateMagneticForce (Vector3 0 0 0) (Vector3 1 0 0) (1 / 10) ''bar''
     = Vector3 (- (13 / 2)) 0 0 \<and>
   calculateMagneticForce (Vector3 0 0 0) (Vector3 1 0 0) (1 / 10) ''horseshoe'' \<noteq>
   calculateMagneticForce (Vector3 0 0 0) (Vector3 1 0 0) (1 / 10) ''bar''"
  by (simp add: calculateMagneticForce_def calculateBarMagnetField_def Let_def distance_def
      normalize_vec_def divideScalar_def length_vec_def dot_def
      clamp_def MIN_FORCE_def MAX_FORCE_def MAGNETIC_FORCE_SCALE_def)

text \<open>
  Claim C2, amended. For a horseshoe magnet the force function applies no shape
  multiplier: below distance 0.1 the force is zero, otherwise it is the unit vector from
  the particle to the magnet scaled by the inverse-square magnitude
  \<open>strength * 50 / distance\<^sup>2\<close> clamped to [0.001, 10]. A bar magnet multiplies the
  magnitude by its pole factor before the clamp.
\<close>

theorem horseshoe_force_unshaped:
  "calculateMagneticForce magnetPos particlePos s ''horseshoe'' =
     (if distance magnetPos particlePos < 0.1 then Vector3 0 0 0
      else multiplyScalar (normalize_vec (subVectors magnetPos particlePos))
             (clamp (s * 50 / (distance magnetPos particlePos)\<^sup>2) 0.001 10)) \<and>
   calculateMagneticForce magnetPos particlePos s ''bar'' =
     (if distance magnetPos particlePos < 0.1 then Vector3 0 0 0
      else multiplyScalar (normalize_vec (subVectors magnetPos particlePos))
             (clamp (s * 50 / (distance magnetPos particlePos)\<^sup>2
                       * calculateBarMagnetField magnetPos particlePos) 0.001 10))"
  by (simp add: calculateMagneticForce_def Let_def MIN_FORCE_def MAX_FORCE_def
      MAGNETIC_FORCE_SCALE_def)

section \<open>Construction\<close>

text \<open>
  Claim C7 says that a particle or a magnet with a negative mass, a negative radius or
  a malformed type fails at construction with \<open>InvalidParameter\<close>. Neither constructor
  tests its arguments: a particle with mass -1 and radius -0.02 and a magnet of type
  \<open>'not-a-magnet'\<close> are built as given.
\<close>

theorem invalid_configuration_accepted:
  "IronParticle_new (Vector3 0 1 0) \<lparr>opt_radius = Some (- (1 / 50)), opt_mass = Some (- 1)\<rparr> =
     Inr \<lparr>position = Vector3 0 1 0, velocity = Vector3 0 0 0, acceleration = Vector3 0 0 0,
          mass = - 1, radius = - (1 / 50), age = 0, maxAge = None, isDead = False,
          isAttractedToMagnet = False, currentMagnet = None, stuckToGround = False\<rparr> \<and>
   Magnet_new (Vector3 0 (1 / 2) 0) ''not-a-magnet'' \<lparr>opt_strength = None\<rparr> =
     Inr \<lparr>mtype = ''not-a-magnet'', mposition = Vector3 0 (1 / 2) 0, strength = 1\<rparr>"
  by (simp add: IronParticle_new_def Magnet_new_def)

text \<open>
  Claim C7, amended. Construction never fails: for every position, type string and
  options the constructors return an object, whose mass, radius, type and strength are
  the values given (or the defaults 0.1, 0.02 and 1.0 where an option is absent).
\<close>

theorem construction_never_fails:
  "(\<exists>p. IronParticle_new pos popts = Inr p \<and>
        mass p = (case opt_mass popts of None \<Rightarrow> 0.1 | Some m \<Rightarrow> m) \<and>
        radius p = (case opt_radius popts of None \<Rightarrow> 0.02 | Some r \<Rightarrow> r)) \<and>
   (\<exists>m. Magnet_new mpos ty mopts = Inr m \<and> mtype m = ty \<and>
        strength m = (case opt_strength mopts of None \<Rightarrow> 1.0 | Some s \<Rightarrow> s))"
  by (simp add: IronParticle_new_def Magnet_new_def)

lemma default_construction:
  "IronParticle_new pos \<lparr>opt_radius = None, opt_mass = None\<rparr> = Inr (fresh_particle pos)"
  by (simp add: IronParticle_new_def fresh_particle_def)

section \<open>The range of the strength\<close>

text \<open>
  Claim C8 says that the strength of a magnet lies in [0.1, 2.0] after construction and
  after every \<open>setStrength\<close>. The setter clamps; the constructor stores the option as
  it comes, so a magnet built with strength 5 has strength 5.
\<close>

theorem constructor_keeps_strength:
  "Magnet_new (Vector3 0 (1 / 2) 0) ''bar'' \<lparr>opt_strength = Some 5\<rparr> =
     Inr \<lparr>mtype = ''bar'', mposition = Vector3 0 (1 / 2) 0, strength = 5\<rparr>"
  by (simp add: Magnet_new_def)

lemma setStrength_in_range:
  "0.1 \<le> strength (setStrength m s) \<and> strength (setStrength m s) \<le> 2.0"
  by (simp add: setStrength_def clamp_def)

section \<open>Spawning at the population ceiling\<close>

lemma oldest_scan_Suc:
  "0 < n \<Longrightarrow> oldest_scan ps (Suc n) =
     (case oldest_scan ps n of (oldestIndex, maxA) \<Rightarrow>
        if age (ps ! n) > maxA then (n, age (ps ! n)) else (oldestIndex, maxA))"
  by (simp add: oldest_scan_def split: prod.splits)

lemma oldest_scan_spec:
  assumes "0 < n"
  shows "fst (oldest_scan ps n) < n \<and>
         snd (oldest_scan ps n) = age (ps ! fst (oldest_scan ps n)) \<and>
         (\<forall>j<n. age (ps ! j) \<le> snd (oldest_scan ps n)) \<and>
         (\<forall>j<fst (oldest_scan ps n). age (ps ! j) < snd (oldest_scan ps n))"
  using assms
proof (induction n)
  case 0
  then show ?case by simp
next
  case (Suc n)
  show ?case
  proof (cases "n = 0")
    case True
    then show ?thesis by (simp add: oldest_scan_def)
  next
    case False
    then have pos: "0 < n" by simp
    obtain i a where ia: "oldest_scan ps n = (i, a)" by (cases "oldest_scan ps n")
    from Suc.IH [OF pos] ia
    have ih: "i < n" "a = age (ps ! i)" "\<forall>j<n. age (ps ! j) \<le> a" "\<forall>j<i. age (ps ! j) < a"
      by auto
    show ?thesis
    proof (cases "age (ps ! n) > a")
      case True
      then have eq: "oldest_scan ps (Suc n) = (n, age (ps ! n))"
        by (simp add: oldest_scan_Suc [OF pos] ia)
      have "\<forall>j<Suc n. age (ps ! j) \<le> age (ps ! n)"
        using ih(3) True by (auto simp: less_Suc_eq intro: less_imp_le order_trans)
      moreover have "\<forall>j<n. age (ps ! j) < age (ps ! n)"
        using ih(3) True by (auto intro: le_less_trans)
      ultimately show ?thesis by (simp add: eq)
    next
      case False
      then have eq: "oldest_scan ps (Suc n) = (i, a)"
        by (simp add: oldest_scan_Suc [OF pos] ia)
      have "\<forall>j<Suc n. age (ps ! j) \<le> a"
        using ih(3) False by (auto simp: less_Suc_eq)
      then show ?thesis using ih by (simp add: eq)
    qed
  qed
qed

lemma removeParticle_particles:
  "i < length (particles s) \<Longrightarrow>
     particles (removeParticle i s) = take i (particles s) @ drop (Suc i) (particles s)"
  by (simp add: removeParticle_def Let_def)

lemma removeParticle_pool:
  "i < length (particles s) \<Longrightarrow>
     particlePool (removeParticle i s) =
       (if length (particlePool s) < 50 then particlePool s @ [particles s ! i]
        else particlePool s) \<and>
     magnets (removeParticle i s) = magnets s"
  by (simp add: removeParticle_def Let_def)

text \<open>
  Claim C5. With 1000 live particles, a spawn at \<open>pos\<close> returns a particle and a state
  such that:

  \<^item> exactly one particle has left the live list, at an index \<open>i\<close> whose age is the
    maximum and which is the first index of that age;
  \<^item> the particle that comes in is appended at the end and the live list has 1000
    elements again;
  \<^item> the particle that comes in is at \<open>pos\<close>, at rest, of age 0 and alive. It is a
    recycled object: the evicted particle itself when the pool had room for it (fewer
    than 50 entries), otherwise the last entry of the pool; in both cases reset by
    \<open>addParticle\<close>. At the ceiling the constructor is never reached;
  \<^item> the pool ends as it was when it had room, and one entry shorter otherwise; the
    magnets are untouched.
\<close>

theorem addParticle_at_ceiling:
  assumes "length (particles s) = 1000"
  shows "\<exists>i particle s'.
           addParticle pos options s = Inr (particle, s') \<and>
           i < 1000 \<and>
           (\<forall>j<1000. age (particles s ! j) \<le> age (particles s ! i)) \<and>
           (\<forall>j<i. age (particles s ! j) < age (particles s ! i)) \<and>
           particles s' = take i (particles s) @ drop (Suc i) (particles s) @ [particle] \<and>
           length (particles s') = 1000 \<and>
           particle =
             (if length (particlePool s) < 50 then particles s ! i else last (particlePool s))
               \<lparr>position := pos, velocity := Vector3 0 0 0, isDead := False, age := 0\<rparr> \<and>
           position particle = pos \<and> velocity particle = Vector3 0 0 0 \<and>
           age particle = 0 \<and> \<not> isDead particle \<and>
           particlePool s' =
             (if length (particlePool s) < 50 then particlePool s
              else butlast (particlePool s)) \<and>
           magnets s' = magnets s"
proof -
  let ?ps = "particles s"
  let ?i = "fst (oldest_scan ?ps (length ?ps))"
  let ?s1 = "removeOldestParticle s"
  let ?src = "if length (particlePool s) < 50 then ?ps ! ?i else last (particlePool s)"
  let ?new = "?src\<lparr>position := pos, velocity := Vector3 0 0 0, isDead := False, age := 0\<rparr>"
  have n: "0 < length ?ps" using assms by simp
  note sc = oldest_scan_spec [OF n, of ?ps]
  have i: "?i < length ?ps" using sc by simp
  have s1: "?s1 = removeParticle ?i s"
    using n by (simp add: removeOldestParticle_def)
  have rm: "particles ?s1 = take ?i ?ps @ drop (Suc ?i) ?ps"
    using i by (simp add: s1 removeParticle_particles)
  have pool1: "particlePool ?s1 =
      (if length (particlePool s) < 50 then particlePool s @ [?ps ! ?i] else particlePool s)"
    and mag1: "magnets ?s1 = magnets s"
    using removeParticle_pool [OF i] by (simp_all add: s1)
  have nonempty: "length (particlePool ?s1) > 0"
    by (auto simp add: pool1)
  have lastp: "last (particlePool ?s1) = ?src"
    by (simp add: pool1)
  have butl: "butlast (particlePool ?s1) =
      (if length (particlePool s) < 50 then particlePool s else butlast (particlePool s))"
    by (simp add: pool1)
  have run: "addParticle pos options s =
      Inr (?new, ?s1\<lparr>particlePool := butlast (particlePool ?s1),
                       particles := particles ?s1 @ [?new]\<rparr>)"
    using assms nonempty
    by (simp add: addParticle_def Let_def maxParticles_def lastp)
  let ?s' = "?s1\<lparr>particlePool := butlast (particlePool ?s1), particles := particles ?s1 @ [?new]\<rparr>"
  have ps': "particles ?s' = take ?i ?ps @ drop (Suc ?i) ?ps @ [?new]"
    by (simp add: rm)
  have len: "length (particles ?s') = 1000"
    using i assms by (simp add: rm)
  have a1: "\<forall>j<1000. age (?ps ! j) \<le> age (?ps ! ?i)"
    using sc assms by auto
  have a2: "\<forall>j<?i. age (?ps ! j) < age (?ps ! ?i)"
    using sc by auto
  have i1000: "?i < 1000" using i assms by simp
  have pool': "particlePool ?s' =
      (if length (particlePool s) < 50 then particlePool s else butlast (particlePool s))"
    by (simp add: butl)
  have mag': "magnets ?s' = magnets s"
    by (simp add: mag1)
  have fields: "position ?new = pos \<and> velocity ?new = Vector3 0 0 0 \<and>
                age ?new = 0 \<and> \<not> isDead ?new"
    by simp
  show ?thesis
    apply (rule exI [of _ ?i])
    apply (rule exI [of _ ?new])
    apply (rule exI [of _ ?s'])
    using run i1000 a1 a2 ps' len pool' mag' fields
    apply (intro conjI)
    apply blast+
    done
qed

text \<open>
  The theorem at \<open>full_app\<close>: indices 499 and 700 tie at the greatest age 5, the first
  one is evicted, the one at index 700 stays, and the particle that comes in is the
  evicted object reset to the spawn position.
\<close>

lemma full_length: "length (particles full_app) = 1000"
  by (simp add: full_app_def)

lemma full_ages:
  "j < 1000 \<Longrightarrow> age (particles full_app ! j) = (if j = 499 \<or> j = 700 then 5 else 0)"
  by (auto simp add: full_app_def nth_append nth_Cons' fresh_particle_def)

lemma full_oldest: "particles full_app ! 499 = (fresh_particle (Vector3 1 1 0))\<lparr>age := 5\<rparr>"
  by (simp add: full_app_def nth_append)

lemma full_rest:
  "take 499 (particles full_app) @ drop (Suc 499) (particles full_app) =
     replicate 699 (fresh_particle (Vector3 0 1 0))
     @ [(fresh_particle (Vector3 2 1 0))\<lparr>age := 5\<rparr>]
     @ replicate 299 (fresh_particle (Vector3 0 1 0))"
  by (simp add: full_app_def replicate_add [symmetric])

theorem addParticle_at_ceiling_witness:
  "length (particles full_app) = 1000 \<and>
   (\<exists>particle s'.
      addParticle (Vector3 0 2 0) \<lparr>opt_radius = None, opt_mass = None\<rparr> full_app
        = Inr (particle, s') \<and>
      particle = fresh_particle (Vector3 0 2 0) \<and>
      particles s' =
        replicate 699 (fresh_particle (Vector3 0 1 0))
        @ [(fresh_particle (Vector3 2 1 0))\<lparr>age := 5\<rparr>]
        @ replicate 299 (fresh_particle (Vector3 0 1 0))
        @ [particle] \<and>
      length (particles s') = 1000 \<and>
      particlePool s' = [])"
proof -
  let ?ps = "particles full_app"
  have h: "length ?ps = 1000" by (rule full_length)
  from addParticle_at_ceiling [OF h, of "Vector3 0 2 0" "\<lparr>opt_radius = None, opt_mass = None\<rparr>"]
  obtain i particle s' where
    run: "addParticle (Vector3 0 2 0) \<lparr>opt_radius = None, opt_mass = None\<rparr> full_app
            = Inr (particle, s')"
    and i: "i < 1000"
    and maxi: "\<forall>j<1000. age (?ps ! j) \<le> age (?ps ! i)"
    and first: "\<forall>j<i. age (?ps ! j) < age (?ps ! i)"
    and ps': "particles s' = take i ?ps @ drop (Suc i) ?ps @ [particle]"
    and len: "length (particles s') = 1000"
    and new: "particle =
        (if length (particlePool full_app) < 50 then ?ps ! i else last (particlePool full_app))
          \<lparr>position := Vector3 0 2 0, velocity := Vector3 0 0 0, isDead := False, age := 0\<rparr>"
    and pool: "particlePool s' =
        (if length (particlePool full_app) < 50 then particlePool full_app
         else butlast (particlePool full_app))"
    by blast
  have "age (?ps ! 499) \<le> age (?ps ! i)" using maxi by simp
  then have "i = 499 \<or> i = 700"
    using full_ages [OF i] full_ages [of 499] by (simp split: if_splits)
  moreover have "i \<noteq> 700"
  proof
    assume "i = 700"
    then have "age (?ps ! 499) < age (?ps ! 700)" using first by simp
    then show False using full_ages [of 499] full_ages [of 700] by simp
  qed
  ultimately have i499: "i = 499" by simp
  have empty: "particlePool full_app = []" by (simp add: full_app_def)
  have p: "particle = fresh_particle (Vector3 0 2 0)"
    using new by (simp add: i499 empty full_oldest fresh_particle_def)
  have l: "particles s' =
      replicate 699 (fresh_particle (Vector3 0 1 0))
      @ [(fresh_particle (Vector3 2 1 0))\<lparr>age := 5\<rparr>]
      @ replicate 299 (fresh_particle (Vector3 0 1 0)) @ [particle]"
    using ps' full_rest by (simp add: i499)
  have q: "particlePool s' = []" using pool by (simp add: empty)
  show ?thesis using h run p l len q by blast
qed

section \<open>The ground invariant\<close>

subsection \<open>One frame on two stacked particles\<close>

lemma no_magnets [simp]:
  "checkMagnetInteraction p [] = p\<lparr>isAttractedToMagnet := False, currentMagnet := None\<rparr>"
  by (simp add: checkMagnetInteraction_def closest_magnet_def)

lemma free_fall_velocity:
  "add_vec (velocity ((fresh_particle pos)\<lparr>age := 1 / 60\<rparr>))
     (multiplyScalar (divideScalar
        (add_vec (add_vec (Vector3 0 0 0)
                    (calculateGravity (mass ((fresh_particle pos)\<lparr>age := 1 / 60\<rparr>))))
           (calculateAirResistance (velocity ((fresh_particle pos)\<lparr>age := 1 / 60\<rparr>))))
        (mass ((fresh_particle pos)\<lparr>age := 1 / 60\<rparr>))) (1 / 60))
   = Vector3 0 (- (327 / 2000)) 0"
  by (simp add: calculateGravity_def calculateAirResistance_def divideScalar_def GRAVITY_def)

lemma lower_physics:
  "updateParticle ((fresh_particle (Vector3 0 0 0))\<lparr>age := 1 / 60\<rparr>) [] (1 / 60) =
     (fresh_particle (Vector3 0 0 0))
       \<lparr>age := 1 / 60, velocity := Vector3 0 (48069 / 1000000) 0\<rparr>"
  unfolding updateParticle_def Let_def foldl_Nil free_fall_velocity
  by (simp add: maxVelocity_def handleGroundCollision_def restitution_def DAMPING_def
      fresh_particle_def)

lemma upper_physics:
  "updateParticle ((fresh_particle (Vector3 0 (3 / 100) 0))\<lparr>age := 1 / 60\<rparr>) [] (1 / 60) =
     (fresh_particle (Vector3 0 (3 / 100) 0))
       \<lparr>age := 1 / 60, velocity := Vector3 0 (- (16023 / 100000)) 0,
        position := Vector3 0 (1091 / 40000) 0\<rparr>"
  unfolding updateParticle_def Let_def foldl_Nil free_fall_velocity
  by (simp add: maxVelocity_def handleGroundCollision_def restitution_def DAMPING_def
      fresh_particle_def)

lemma lower_update:
  "IronParticle_update (fresh_particle (Vector3 0 0 0)) (1 / 60) [] = lower_after"
  unfolding IronParticle_update_def Let_def
  by (simp add: lower_physics checkGroundStick_def) (simp add: fresh_particle_def lower_after_def)

lemma upper_update:
  "IronParticle_update (fresh_particle (Vector3 0 (3 / 100) 0)) (1 / 60) [] = upper_after"
  unfolding IronParticle_update_def Let_def
  by (simp add: upper_physics checkGroundStick_def) (simp add: fresh_particle_def upper_after_def)

lemma stacked_integration:
  "updateParticles (1 / 60) stacked_app =
     \<lparr>particles = [lower_after, upper_after], magnets = [], particlePool = []\<rparr>"
  by (simp add: updateParticles_def stacked_app_def numeral_2_eq_2 Let_def lower_update
      upper_update isOutOfBounds_def)

lemma stacked_collision:
  "handleParticleCollision lower_after upper_after =
     (lower_after\<lparr>position := Vector3 0 (- (509 / 80000)) 0\<rparr>,
      upper_after\<lparr>position := Vector3 0 (2691 / 80000) 0\<rparr>)"
  unfolding handleParticleCollision_def Let_def
  by (simp add: normalize_vec_def divideScalar_def dot_def)

lemma stacked_step:
  "app_update (1 / 60) stacked_app =
     \<lparr>particles = [lower_after\<lparr>position := Vector3 0 (- (509 / 80000)) 0\<rparr>,
                    upper_after\<lparr>position := Vector3 0 (2691 / 80000) 0\<rparr>],
      magnets = [], particlePool = []\<rparr>"
  by (simp add: app_update_def Let_def stacked_integration handleParticleCollisions_def
      collide_pair_def stacked_collision cleanupDeadParticles_def numeral_2_eq_2)

text \<open>
  Claim C1 says that after a step every live particle has a non-negative height. The
  ground test sits in \<open>handleGroundCollision\<close>, which \<open>updateParticle\<close> calls; the
  pairwise collision pass runs after it and moves positions with no ground test. Take
  two default particles, one on the ground at the origin and one 0.03 above it, no
  magnets, and a frame of 1/60 s. After integration the lower one rests at height 0 and
  the upper one has fallen to 0.027275, so their spheres overlap by 0.012725. The
  collision pass moves each by half of that along the vertical normal: the lower
  particle ends the step 0.0063625 below the ground, alive and in the live list.
\<close>

theorem collision_pass_breaks_ground_invariant:
  "length (particles (app_update (1 / 60) stacked_app)) = 2 \<and>
   \<not> isDead (particles (app_update (1 / 60) stacked_app) ! 0) \<and>
   y (position (particles (app_update (1 / 60) stacked_app) ! 0)) = - (509 / 80000) \<and>
   y (position (particles (app_update (1 / 60) stacked_app) ! 0)) < 0"
  by (simp add: stacked_step)

end
